theory Spec2Isabelle
  imports Complex_Main
begin

section \<open>Values and exceptions\<close>

text \<open>
  A numpy array or pandas column is a list. The float64 numbers that the fitting loop reads
  from the spectrum and from the peak dictionary and hands to the optimizer are carried as
  the reals they denote. The loop does no arithmetic on them apart from the one product in
  the initial amplitude.

  A Python exception is a value of the type \<open>error\<close>; a call that may raise returns
  \<open>error + 'a\<close>, with \<open>Inl\<close> for the exception.
\<close>

datatype error =
    KeyError string
  | IndexError
  | ValueError
  | RuntimeError
  | ConnectionError
  | OtherError string

section \<open>Peak-shape functions (spectrum\_analysis.ipynb)\<close>

text \<open>
  \<^verbatim>\<open>
  def gaussian(x_array, ampl, centre, width):
      sigma = width/np.sqrt(8*np.log(2))
      return ampl*(1/(sigma*np.sqrt(2*np.pi)))*np.exp(-(x_array-centre)**2/(2*sigma**2))

  def lorentzian(x_array, ampl, centre, width):
      h_width = width/2
      return ampl/np.pi * h_width/((x_array-centre)**2 + h_width**2)
  \<close>
  The two bodies compute in IEEE-754 double precision, with numpy's and the C library's
  power, square root, logarithm and exponential. Their values depend on the rounding of
  every operation and on underflow and overflow, so the bodies are not given a definition
  over the reals here. What the fitting loop does with such a function is to pass the
  function object to the optimizer: a value of the following type names the function that is
  passed.
\<close>

datatype peak_shape = gaussian | lorentzian

section \<open>Per-peak curve fitting (the loop that fills popt\_list and pcov\_list)\<close>

text \<open>
  \<^verbatim>\<open>
  popt_list = []
  pcov_list = []
  for pk in range(len(peak_idx)):
      popt, pcov = curve_fit(lorentzian,
                             xdata=nmr_spec["ppm"],
                             ydata=nmr_spec["intensity"],
                             p0=[peak_info["peak_heights"][pk]*peak_info["widths"][pk],
                                 peak_info["centres"][pk],
                                 peak_info["widths"][pk] ])
      popt_list.append(popt)
      pcov_list.append(pcov)
  \<close>
  \<open>curve_fit\<close> is \<open>scipy.optimize.curve_fit\<close>, a library routine: the loop is modelled for
  any optimizer, the parameter \<open>cf\<close>, which gets the model function, the x data, the y data
  and the initial parameter vector, and returns the pair (popt, pcov) or raises (scipy raises
  \<open>RuntimeError\<close> when the least-squares minimisation fails). \<open>peak_info\<close> is the dictionary
  of peak properties, its values arrays with one entry per peak. The loop has no handler, so
  an exception ends it; the model returns the two lists as they are at that moment, with the
  exception.
\<close>

type_synonym fit_result = "real list \<times> real list list"

type_synonym optimizer =
  "peak_shape \<Rightarrow> real list \<Rightarrow> real list \<Rightarrow> real list \<Rightarrow> error + fit_result"

type_synonym peak_dict = "string \<rightharpoonup> real list"

record fit_lists =
  popt_list :: "real list list"
  pcov_list :: "real list list list"

text \<open>\<open>peak_info[key][pk]\<close>: a missing key and an index past the end raise.\<close>

definition peak_item :: "peak_dict \<Rightarrow> string \<Rightarrow> nat \<Rightarrow> error + real" where
  "peak_item peak_info key pk =
     (case peak_info key of
        None \<Rightarrow> Inl (KeyError key)
      | Some arr \<Rightarrow> if pk < length arr then Inr (arr ! pk) else Inl IndexError)"

text \<open>The list passed as \<open>p0\<close>, its items evaluated from left to right.\<close>

definition p0_of :: "peak_dict \<Rightarrow> nat \<Rightarrow> error + real list" where
  "p0_of peak_info pk =
     (case peak_item peak_info ''peak_heights'' pk of
        Inl e \<Rightarrow> Inl e
      | Inr height \<Rightarrow>
          (case peak_item peak_info ''widths'' pk of
             Inl e \<Rightarrow> Inl e
           | Inr width \<Rightarrow>
               (case peak_item peak_info ''centres'' pk of
                  Inl e \<Rightarrow> Inl e
                | Inr centre \<Rightarrow>
                    (case peak_item peak_info ''widths'' pk of
                       Inl e \<Rightarrow> Inl e
                     | Inr width' \<Rightarrow> Inr [height * width, centre, width']))))"

text \<open>The call of the optimizer in the loop body, for the peak \<open>pk\<close>.\<close>

definition fit_one ::
  "optimizer \<Rightarrow> real list \<Rightarrow> real list \<Rightarrow> peak_dict \<Rightarrow> nat \<Rightarrow> error + fit_result" where
  "fit_one cf ppm intensity peak_info pk =
     (case p0_of peak_info pk of
        Inl e \<Rightarrow> Inl e
      | Inr p0 \<Rightarrow> cf lorentzian ppm intensity p0)"

fun fit_loop ::
  "optimizer \<Rightarrow> real list \<Rightarrow> real list \<Rightarrow> peak_dict \<Rightarrow> nat list \<Rightarrow> fit_lists
     \<Rightarrow> fit_lists \<times> error option" where
  "fit_loop cf ppm intensity peak_info [] st = (st, None)"
| "fit_loop cf ppm intensity peak_info (pk # pks) st =
     (case fit_one cf ppm intensity peak_info pk of
        Inl e \<Rightarrow> (st, Some e)
      | Inr (popt, pcov) \<Rightarrow>
          fit_loop cf ppm intensity peak_info pks
            (st\<lparr>popt_list := popt_list st @ [popt], pcov_list := pcov_list st @ [pcov]\<rparr>))"

definition run_curve_fits ::
  "optimizer \<Rightarrow> real list \<Rightarrow> real list \<Rightarrow> nat list \<Rightarrow> peak_dict \<Rightarrow> fit_lists \<times> error option" where
  "run_curve_fits cf ppm intensity peak_idx peak_info =
     fit_loop cf ppm intensity peak_info [0..<length peak_idx]
       \<lparr>popt_list = [], pcov_list = []\<rparr>"

text \<open>
  Optimizers and dictionaries for the examples below. \<open>cf_far_centre\<close> gives up when the
  initial centre is further than 100 from the origin, and otherwise returns the initial
  parameters with an empty covariance; the second of the three peaks of \<open>peak_info_far\<close>
  has such a centre. \<open>cf_echo\<close> always returns the initial parameters.
\<close>

definition cf_far_centre :: optimizer where
  "cf_far_centre f xdata ydata p0 =
     (if 100 < \<bar>p0 ! 1\<bar> then Inl RuntimeError else Inr (p0, []))"

definition peak_info_far :: peak_dict where
  "peak_info_far =
     [''peak_heights'' \<mapsto> [5, 8, 3],
      ''widths'' \<mapsto> [1 / 10, 1 / 10, 1 / 10],
      ''centres'' \<mapsto> [1, 1000, 2]]"

definition cf_echo :: optimizer where
  "cf_echo f xdata ydata p0 = Inr (p0, [])"

definition peak_info_near :: peak_dict where
  "peak_info_near =
     [''peak_heights'' \<mapsto> [5, 8], ''widths'' \<mapsto> [1 / 10, 1 / 5], ''centres'' \<mapsto> [1 / 2, 3 / 2]]"

section \<open>Descriptor calculation (ML\_demo.ipynb)\<close>

text \<open>
  \<^verbatim>\<open>
  def getMolDescriptors(mol, descriptor_list=None, missingVal=None):
      res = {}
      if not(descriptor_list):
          descriptors = Descriptors._descList
      else:
          descriptors = [Descriptors._descList[idx] for idx in descriptor_list]
      for nm,fn in descriptors:
          try:
              val = fn(mol)
          except:
              import traceback
              traceback.print_exc()
              val = missingVal
          res[nm] = val
      return res
  \<close>
  \<open>Descriptors._descList\<close> is the toolkit's table of (name, function) pairs: it is the
  parameter \<open>descList\<close>, and a descriptor function is any function from the molecule to a
  value or an exception. \<open>descriptor_list\<close> is \<open>None\<close> or a list of integer positions in
  the table; \<open>not(descriptor_list)\<close> holds for \<open>None\<close> and for the empty list. The
  tracebacks that the handler prints are returned next to the dictionary.
\<close>

datatype pyval = PyNone | PyInt int | PyFloat real

type_synonym 'm descriptor = "string \<times> ('m \<Rightarrow> error + pyval)"

text \<open>\<open>xs[i]\<close> on a Python list: a negative position counts from the end.\<close>

definition py_getitem :: "'a list \<Rightarrow> int \<Rightarrow> error + 'a" where
  "py_getitem xs i =
     (if 0 \<le> i \<and> i < int (length xs) then Inr (xs ! nat i)
      else if i < 0 \<and> - int (length xs) \<le> i then Inr (xs ! nat (int (length xs) + i))
      else Inl IndexError)"

text \<open>The list comprehension: the first position out of range raises.\<close>

fun select_descriptors :: "'a list \<Rightarrow> int list \<Rightarrow> error + 'a list" where
  "select_descriptors descList [] = Inr []"
| "select_descriptors descList (idx # rest) =
     (case py_getitem descList idx of
        Inl e \<Rightarrow> Inl e
      | Inr d \<Rightarrow>
          (case select_descriptors descList rest of
             Inl e \<Rightarrow> Inl e
           | Inr ds \<Rightarrow> Inr (d # ds)))"

fun descriptor_loop ::
  "'m \<Rightarrow> pyval \<Rightarrow> 'm descriptor list \<Rightarrow> (string \<rightharpoonup> pyval) \<times> error list
     \<Rightarrow> (string \<rightharpoonup> pyval) \<times> error list" where
  "descriptor_loop mol missingVal [] (res, printed) = (res, printed)"
| "descriptor_loop mol missingVal ((nm, fn) # ds) (res, printed) =
     (case fn mol of
        Inl e \<Rightarrow> descriptor_loop mol missingVal ds (res(nm \<mapsto> missingVal), printed @ [e])
      | Inr val \<Rightarrow> descriptor_loop mol missingVal ds (res(nm \<mapsto> val), printed))"

definition getMolDescriptors ::
  "'m descriptor list \<Rightarrow> 'm \<Rightarrow> int list option \<Rightarrow> pyval
     \<Rightarrow> error + ((string \<rightharpoonup> pyval) \<times> error list)" where
  "getMolDescriptors descList mol descriptor_list missingVal =
     (case (case descriptor_list of
              None \<Rightarrow> Inr descList
            | Some idxs \<Rightarrow> if idxs = [] then Inr descList
                           else select_descriptors descList idxs) of
        Inl e \<Rightarrow> Inl e
      | Inr descriptors \<Rightarrow> Inr (descriptor_loop mol missingVal descriptors (Map.empty, [])))"

text \<open>A table of three descriptors for the examples; the second one raises.\<close>

definition descList_demo :: "unit descriptor list" where
  "descList_demo =
     [(''NumHDonors'', \<lambda>_. Inr (PyInt 1)),
      (''BalabanJ'', \<lambda>_. Inl ValueError),
      (''TPSA'', \<lambda>_. Inr (PyFloat 20))]"

section \<open>Name to SMILES lookup (ML\_demo.ipynb)\<close>

text \<open>
  \<^verbatim>\<open>
  def get_smiles_from_name(name):
      ROOT_URL = "https://cactus.nci.nih.gov/chemical/structure/"
      identifier = name
      representation = "smiles"
      query_url = f"{ROOT_URL}{identifier}/{representation}"
      response = requests.get(query_url)
      time.sleep(0.05)
      if response:
          return response.text
      else:
          print(f"Failed to get SMILES for {name}")
          return "not found"
  \<close>
  The service is the parameter \<open>http_get\<close>: for a URL it gives a response, or
  \<open>requests.get\<close> raises (no connection, for instance). The truth value of a response
  object is its field \<open>ok\<close>, as the requests library defines it; its field \<open>text\<close> is
  named \<open>body_text\<close> here. The requests issued, the time slept and the lines printed are
  the state.
\<close>

record response =
  ok :: bool
  status_code :: int
  body_text :: string

record io_state =
  requests_sent :: "string list"
  slept_ms :: nat
  stdout :: "string list"

definition ROOT_URL :: string where
  "ROOT_URL = ''https://cactus.nci.nih.gov/chemical/structure/''"

definition get_smiles_from_name ::
  "(string \<Rightarrow> error + response) \<Rightarrow> string \<Rightarrow> io_state \<Rightarrow> (error + string) \<times> io_state" where
  "get_smiles_from_name http_get name st =
     (let identifier = name;
          representation = ''smiles'';
          query_url = ROOT_URL @ identifier @ ''/'' @ representation;
          st1 = st\<lparr>requests_sent := requests_sent st @ [query_url]\<rparr>
      in case http_get query_url of
           Inl e \<Rightarrow> (Inl e, st1)
         | Inr response \<Rightarrow>
             (let st2 = st1\<lparr>slept_ms := slept_ms st1 + 50\<rparr>
              in if ok response then (Inr (body_text response), st2)
                 else (Inr ''not found'',
                       st2\<lparr>stdout := stdout st2 @ [''Failed to get SMILES for '' @ name]\<rparr>)))"

text \<open>A service for the examples: it knows ethanol and answers 404 for every other URL.\<close>

definition cactus_demo :: "string \<Rightarrow> error + response" where
  "cactus_demo url =
     (if url = ''https://cactus.nci.nih.gov/chemical/structure/ethanol/smiles''
      then Inr \<lparr>ok = True, status_code = 200, body_text = ''CCO''\<rparr>
      else Inr \<lparr>ok = False, status_code = 404, body_text = ''Page not found''\<rparr>)"

definition io_start :: io_state where
  "io_start = \<lparr>requests_sent = [], slept_ms = 0, stdout = []\<rparr>"

section \<open>Theorems about the per-peak fitting loop\<close>

lemma fit_loop_trace:
  "fit_loop cf x y info pks st = (st', r) \<Longrightarrow>
     \<exists>fits. popt_list st' = popt_list st @ map fst fits \<and>
            pcov_list st' = pcov_list st @ map snd fits \<and>
            (\<forall>j<length fits. j < length pks \<and> fit_one cf x y info (pks ! j) = Inr (fits ! j)) \<and>
            (case r of
               None \<Rightarrow> length fits = length pks
             | Some e \<Rightarrow> length fits < length pks \<and>
                         fit_one cf x y info (pks ! length fits) = Inl e)"
proof (induction pks arbitrary: st)
  case Nil
  then show ?case by (intro exI [of _ "[]"]) auto
next
  case (Cons pk pks)
  show ?case
  proof (cases "fit_one cf x y info pk")
    case (Inl e)
    with Cons.prems show ?thesis by (intro exI [of _ "[]"]) auto
  next
    case (Inr res)
    obtain popt pcov where res: "res = (popt, pcov)" by (cases res)
    let ?st = "st\<lparr>popt_list := popt_list st @ [popt], pcov_list := pcov_list st @ [pcov]\<rparr>"
    from Cons.prems Inr res have "fit_loop cf x y info pks ?st = (st', r)" by simp
    from Cons.IH [OF this] obtain fits where
      d1: "popt_list st' = popt_list ?st @ map fst fits" and
      d2: "pcov_list st' = pcov_list ?st @ map snd fits" and
      d3: "\<forall>j<length fits. j < length pks \<and> fit_one cf x y info (pks ! j) = Inr (fits ! j)" and
      d4: "(case r of None \<Rightarrow> length fits = length pks
             | Some e \<Rightarrow> length fits < length pks \<and>
                         fit_one cf x y info (pks ! length fits) = Inl e)"
      by blast
    show ?thesis
    proof (intro exI [of _ "res # fits"] conjI)
      show "popt_list st' = popt_list st @ map fst (res # fits)" using d1 res by simp
      show "pcov_list st' = pcov_list st @ map snd (res # fits)" using d2 res by simp
      show "\<forall>j<length (res # fits). j < length (pk # pks) \<and>
              fit_one cf x y info ((pk # pks) ! j) = Inr ((res # fits) ! j)"
        using d3 Inr by (auto simp: nth_Cons split: nat.split)
      show "case r of None \<Rightarrow> length (res # fits) = length (pk # pks)
             | Some e \<Rightarrow> length (res # fits) < length (pk # pks) \<and>
                 fit_one cf x y info ((pk # pks) ! length (res # fits)) = Inl e"
        using d4 by (auto split: option.splits)
    qed
  qed
qed

lemma run_curve_fits_trace:
  assumes "run_curve_fits cf x y peak_idx info = (st, r)"
  shows "length (popt_list st) = length (pcov_list st) \<and>
         length (popt_list st) \<le> length peak_idx \<and>
         (\<forall>k<length (popt_list st).
            fit_one cf x y info k = Inr (popt_list st ! k, pcov_list st ! k)) \<and>
         (case r of
            None \<Rightarrow> length (popt_list st) = length peak_idx
          | Some e \<Rightarrow> length (popt_list st) < length peak_idx \<and>
                      fit_one cf x y info (length (popt_list st)) = Inl e)"
proof -
  from assms have "fit_loop cf x y info [0..<length peak_idx] \<lparr>popt_list = [], pcov_list = []\<rparr> = (st, r)"
    by (simp add: run_curve_fits_def)
  from fit_loop_trace [OF this] obtain fits where
      d1: "popt_list st = map fst fits" and
      d2: "pcov_list st = map snd fits" and
      d3: "\<forall>j<length fits. j < length [0..<length peak_idx] \<and> fit_one cf x y info ([0..<length peak_idx] ! j) = Inr (fits ! j)" and
      d4: "(case r of None \<Rightarrow> length fits = length [0..<length peak_idx]
             | Some e \<Rightarrow> length fits < length [0..<length peak_idx] \<and>
                         fit_one cf x y info ([0..<length peak_idx] ! length fits) = Inl e)"
    by auto
  have "\<forall>k<length (popt_list st). fit_one cf x y info k = Inr (popt_list st ! k, pcov_list st ! k)"
    using d1 d2 d3 by auto
  moreover have "case r of
            None \<Rightarrow> length (popt_list st) = length peak_idx
          | Some e \<Rightarrow> length (popt_list st) < length peak_idx \<and>
                      fit_one cf x y info (length (popt_list st)) = Inl e"
    using d1 d4 by (auto split: option.splits)
  moreover have "length (popt_list st) \<le> length peak_idx" using d1 d4 by (auto split: option.splits)
  ultimately show ?thesis using d1 d2 by simp
qed



text \<open>
  C7. When the per-peak fitting loop completes over the \<open>n\<close> surviving peak candidates,
  \<open>len(popt_list) = len(pcov_list) = len(peak_idx) = n\<close>: one result was appended per
  candidate, in candidate order, so that the entries at position \<open>k\<close> are the result of
  the fit of candidate \<open>k\<close>.
\<close>

theorem fit_lists_lengths:
  assumes "run_curve_fits cf x y peak_idx info = (st, None)"
  shows "length (popt_list st) = length peak_idx \<and>
         length (pcov_list st) = length peak_idx \<and>
         (\<forall>k<length peak_idx.
            fit_one cf x y info k = Inr (popt_list st ! k, pcov_list st ! k))"
  using run_curve_fits_trace [OF assms] by simp

lemma run_echo_near:
  "run_curve_fits cf_echo [0, 1, 2] [0, 1, 0] [10, 20] peak_info_near =
     (\<lparr>popt_list = [[1 / 2, 1 / 2, 1 / 10], [8 / 5, 3 / 2, 1 / 5]], pcov_list = [[], []]\<rparr>, None)"
  by (simp add: run_curve_fits_def upt_rec fit_one_def p0_of_def peak_item_def
        peak_info_near_def cf_echo_def)

theorem fit_lists_lengths_witness:
  "length (popt_list (fst (run_curve_fits cf_echo [0, 1, 2] [0, 1, 0] [10, 20] peak_info_near)))
     = length [10, 20 :: nat] \<and>
   length (pcov_list (fst (run_curve_fits cf_echo [0, 1, 2] [0, 1, 0] [10, 20] peak_info_near)))
     = length [10, 20 :: nat]"
  using fit_lists_lengths [OF run_echo_near] by (simp add: run_echo_near)



text \<open>
  C4, as the code has it. The loop has no exception handler, so a failure is not local to a
  peak: when the optimizer raises for peak \<open>k\<close>, after the fits of the peaks before it
  succeeded, the exception ends the loop; \<open>popt_list\<close> and \<open>pcov_list\<close> then hold
  exactly the \<open>k\<close> results of the earlier peaks, and neither peak \<open>k\<close> nor any later
  peak gets an entry.
\<close>

theorem fit_failure_ends_loop:
  assumes "k < length peak_idx"
    and "\<forall>j<k. \<exists>res. fit_one cf x y info j = Inr res"
    and "p0_of info k = Inr p0"
    and "cf lorentzian x y p0 = Inl e"
  shows "snd (run_curve_fits cf x y peak_idx info) = Some e \<and>
         length (popt_list (fst (run_curve_fits cf x y peak_idx info))) = k \<and>
         length (pcov_list (fst (run_curve_fits cf x y peak_idx info))) = k \<and>
         (\<forall>j<k. fit_one cf x y info j =
                  Inr (popt_list (fst (run_curve_fits cf x y peak_idx info)) ! j,
                       pcov_list (fst (run_curve_fits cf x y peak_idx info)) ! j))"
proof -
  obtain st r where run: "run_curve_fits cf x y peak_idx info = (st, r)"
    by (cases "run_curve_fits cf x y peak_idx info")
  note tr = run_curve_fits_trace [OF run]
  have fail: "fit_one cf x y info k = Inl e"
    using assms(3,4) by (simp add: fit_one_def)
  let ?n = "length (popt_list st)"
  have ok: "\<forall>j<?n. \<exists>res. fit_one cf x y info j = Inr res" using tr by blast
  have "\<not> k < ?n" using ok fail by auto
  moreover have "r \<noteq> None"
  proof
    assume "r = None"
    then have "?n = length peak_idx" using tr by simp
    then show False using assms(1) \<open>\<not> k < ?n\<close> by simp
  qed
  then obtain e' where r: "r = Some e'" by auto
  then have stop: "fit_one cf x y info ?n = Inl e'" and "?n < length peak_idx"
    using tr by auto
  have "\<not> ?n < k" using stop assms(2) by auto
  ultimately have n: "?n = k" by simp
  then have "e' = e" using stop fail by simp
  then show ?thesis using run r n tr by simp
qed

text \<open>
  C4, as stated, fails: with three candidates of which the second makes the optimizer give
  up, the loop ends with the \<open>RuntimeError\<close> and one fitted peak, although the fit of the
  third candidate would succeed. No failure state is recorded for the second peak and the
  third is never fitted.
\<close>

theorem fit_failure_not_local_counterexample:
  "run_curve_fits cf_far_centre [0, 1, 2] [0, 1, 0] [10, 20, 30] peak_info_far =
     (\<lparr>popt_list = [[1 / 2, 1, 1 / 10]], pcov_list = [[]]\<rparr>, Some RuntimeError) \<and>
   fit_one cf_far_centre [0, 1, 2] [0, 1, 0] peak_info_far 2 = Inr ([3 / 10, 2, 1 / 10], [])"
  by (simp add: run_curve_fits_def upt_rec fit_one_def p0_of_def peak_item_def
        peak_info_far_def cf_far_centre_def)

theorem fit_failure_ends_loop_witness:
  "snd (run_curve_fits cf_far_centre [0, 1, 2] [0, 1, 0] [10, 20, 30] peak_info_far)
     = Some RuntimeError \<and>
   length (popt_list (fst (run_curve_fits cf_far_centre [0, 1, 2] [0, 1, 0] [10, 20, 30]
     peak_info_far))) = 1"
proof -
  have k: "1 < length [10, 20, 30 :: nat]" by simp
  have before: "\<forall>j<1. \<exists>res. fit_one cf_far_centre [0, 1, 2] [0, 1, 0] peak_info_far j = Inr res"
    by (simp add: fit_one_def p0_of_def peak_item_def peak_info_far_def cf_far_centre_def)
  have p0: "p0_of peak_info_far 1 = Inr [8 * (1 / 10), 1000, 1 / 10]"
    by (simp add: p0_of_def peak_item_def peak_info_far_def)
  have fails: "cf_far_centre lorentzian [0, 1, 2] [0, 1, 0] [8 * (1 / 10), 1000, 1 / 10]
                 = Inl RuntimeError"
    by (simp add: cf_far_centre_def)
  from fit_failure_ends_loop [OF k before p0 fails] show ?thesis by simp
qed

section \<open>Theorems about the descriptor calculation\<close>

lemma py_getitem_valid:
  assumes "- int (length xs) \<le> i" and "i < int (length xs)"
  shows "py_getitem xs i = Inr (xs ! nat (if i < 0 then int (length xs) + i else i)) \<and>
         nat (if i < 0 then int (length xs) + i else i) < length xs"
  using assms by (auto simp: py_getitem_def)

lemma select_descriptors_valid:
  assumes "\<forall>i\<in>set idxs. - int (length xs) \<le> i \<and> i < int (length xs)"
  shows "select_descriptors xs idxs =
           Inr (map (\<lambda>i. xs ! nat (if i < 0 then int (length xs) + i else i)) idxs)"
  using assms by (induction idxs) (simp_all add: py_getitem_valid)

lemma descriptor_loop_res:
  "fst (descriptor_loop mol mv ds (res, printed)) nm' =
     (case map_of (rev ds) nm' of
        None \<Rightarrow> res nm'
      | Some fn \<Rightarrow> Some (case fn mol of Inl e \<Rightarrow> mv | Inr v \<Rightarrow> v))"
proof (induction ds arbitrary: res printed)
  case Nil
  then show ?case by simp
next
  case (Cons d ds)
  obtain nm fn where d: "d = (nm, fn)" by (cases d)
  show ?case
    by (cases "fn mol")
       (simp_all add: d Cons.IH map_add_def split: option.splits)
qed

lemma descriptor_loop_dom:
  "dom (fst (descriptor_loop mol mv ds (res, printed))) = dom res \<union> fst ` set ds"
proof (induction ds arbitrary: res printed)
  case Nil
  then show ?case by simp
next
  case (Cons d ds)
  obtain nm fn where d: "d = (nm, fn)" by (cases d)
  show ?case
    by (cases "fn mol") (auto simp: d Cons.IH)
qed

text \<open>
  C9. \<open>getMolDescriptors\<close> is total over descriptor failures. For every molecule, every
  \<open>missingVal\<close> and every descriptor selection (no list, an empty list, or a list of
  positions of the descriptor table, counted from either end) the call returns a dictionary;
  its keys are exactly the names of the selected descriptors; and the value of a name is the
  result of its descriptor function, or \<open>missingVal\<close> when that function raises (for a
  name selected more than once, the last selection decides). No exception of a descriptor
  function leaves the call.
\<close>

theorem getMolDescriptors_total:
  assumes "case descriptor_list of
             None \<Rightarrow> True
           | Some idxs \<Rightarrow> \<forall>i\<in>set idxs. - int (length descList) \<le> i \<and> i < int (length descList)"
  shows "\<exists>res printed.
           getMolDescriptors descList mol descriptor_list missingVal = Inr (res, printed) \<and>
           (let descriptors =
                  (case descriptor_list of
                     None \<Rightarrow> descList
                   | Some idxs \<Rightarrow>
                       if idxs = [] then descList
                       else map (\<lambda>i. descList ! nat (if i < 0 then int (length descList) + i else i))
                              idxs)
            in dom res = fst ` set descriptors \<and>
               (\<forall>nm fn. map_of (rev descriptors) nm = Some fn \<longrightarrow>
                  res nm = Some (case fn mol of Inl e \<Rightarrow> missingVal | Inr val \<Rightarrow> val)))"
proof -
  define descriptors where "descriptors =
     (case descriptor_list of
        None \<Rightarrow> descList
      | Some idxs \<Rightarrow>
          if idxs = [] then descList
          else map (\<lambda>i. descList ! nat (if i < 0 then int (length descList) + i else i)) idxs)"
  have sel: "(case descriptor_list of
                None \<Rightarrow> Inr descList
              | Some idxs \<Rightarrow> if idxs = [] then Inr descList
                             else select_descriptors descList idxs) = Inr descriptors"
    using assms unfolding descriptors_def
    by (auto split: option.splits simp: select_descriptors_valid)
  obtain res printed where
    loop: "descriptor_loop mol missingVal descriptors (Map.empty, []) = (res, printed)"
    by (cases "descriptor_loop mol missingVal descriptors (Map.empty, [])")
  have run: "getMolDescriptors descList mol descriptor_list missingVal = Inr (res, printed)"
    unfolding getMolDescriptors_def sel using loop by simp
  have res: "res = fst (descriptor_loop mol missingVal descriptors (Map.empty, []))"
    using loop by simp
  have d: "dom res = fst ` set descriptors"
    unfolding res by (simp add: descriptor_loop_dom)
  have v: "res nm = Some (case fn mol of Inl e \<Rightarrow> missingVal | Inr val \<Rightarrow> val)"
    if "map_of (rev descriptors) nm = Some fn" for nm fn
    unfolding res using that by (simp add: descriptor_loop_res)
  show ?thesis
    using run d v unfolding descriptors_def [symmetric] Let_def by blast
qed


theorem getMolDescriptors_total_witness:
  "\<exists>res printed.
     getMolDescriptors descList_demo () (Some [1, - 1]) PyNone = Inr (res, printed) \<and>
     dom res = {''BalabanJ'', ''TPSA''} \<and>
     res ''BalabanJ'' = Some PyNone \<and>
     res ''TPSA'' = Some (PyFloat 20)"
proof -
  have valid: "case Some [1, - 1 :: int] of
                 None \<Rightarrow> True
               | Some idxs \<Rightarrow> \<forall>i\<in>set idxs. - int (length descList_demo) \<le> i
                                \<and> i < int (length descList_demo)"
    by (simp add: descList_demo_def)
  from getMolDescriptors_total [OF valid, of "()" PyNone]
  obtain res printed where
    run: "getMolDescriptors descList_demo () (Some [1, - 1]) PyNone = Inr (res, printed)" and
    d: "dom res = fst ` set (map (\<lambda>i. descList_demo ! nat (if i < 0 then int (length descList_demo) + i else i)) [1, - 1])" and
    v: "\<And>nm fn. map_of (rev (map (\<lambda>i. descList_demo ! nat (if i < 0 then int (length descList_demo) + i else i)) [1, - 1])) nm = Some fn
           \<Longrightarrow> res nm = Some (case fn () of Inl e \<Rightarrow> PyNone | Inr val \<Rightarrow> val)"
    by (auto simp: Let_def)
  have "dom res = {''BalabanJ'', ''TPSA''}"
    unfolding d by (simp add: descList_demo_def)
  moreover have "res ''BalabanJ'' = Some PyNone"
    using v [of "''BalabanJ''" "\<lambda>_. Inl ValueError"] by (simp add: descList_demo_def)
  moreover have "res ''TPSA'' = Some (PyFloat 20)"
    using v [of "''TPSA''" "\<lambda>_. Inr (PyFloat 20)"] by (simp add: descList_demo_def)
  ultimately show ?thesis using run by blast
qed

text \<open>
  A position outside the table is not a selection: the list comprehension raises
  \<open>IndexError\<close> before any descriptor is calculated.
\<close>

lemma getMolDescriptors_bad_position:
  "getMolDescriptors descList_demo () (Some [1, 3]) PyNone = Inl IndexError"
  by (simp add: getMolDescriptors_def py_getitem_def descList_demo_def)

section \<open>Theorems about the name lookup\<close>

text \<open>
  C10. Every call of \<open>get_smiles_from_name\<close> issues exactly one request, to the URL built
  from the name; and whenever the service answers with a response, the call returns
  normally: the body text when the response is truthy, and the sentinel \<open>not found\<close> when
  it is falsy.
\<close>

theorem get_smiles_from_name_result:
  "requests_sent (snd (get_smiles_from_name http_get name st)) =
     requests_sent st @ [ROOT_URL @ name @ ''/smiles''] \<and>
   (\<forall>response. http_get (ROOT_URL @ name @ ''/smiles'') = Inr response \<longrightarrow>
      fst (get_smiles_from_name http_get name st) =
        Inr (if ok response then body_text response else ''not found''))"
  by (auto simp: get_smiles_from_name_def Let_def split: sum.splits)

theorem get_smiles_from_name_result_witness:
  "fst (get_smiles_from_name cactus_demo ''ethanol'' io_start) = Inr ''CCO'' \<and>
   fst (get_smiles_from_name cactus_demo ''unobtainium'' io_start) = Inr ''not found'' \<and>
   requests_sent (snd (get_smiles_from_name cactus_demo ''unobtainium'' io_start)) =
     [''https://cactus.nci.nih.gov/chemical/structure/unobtainium/smiles'']"
proof -
  have e: "cactus_demo (ROOT_URL @ ''ethanol'' @ ''/smiles'')
             = Inr \<lparr>ok = True, status_code = 200, body_text = ''CCO''\<rparr>"
    by (simp add: cactus_demo_def ROOT_URL_def)
  have u: "cactus_demo (ROOT_URL @ ''unobtainium'' @ ''/smiles'')
             = Inr \<lparr>ok = False, status_code = 404, body_text = ''Page not found''\<rparr>"
    by (simp add: cactus_demo_def ROOT_URL_def)
  from get_smiles_from_name_result [of cactus_demo "''ethanol''" io_start] e
  have "fst (get_smiles_from_name cactus_demo ''ethanol'' io_start) = Inr ''CCO''"
    by simp
  moreover
  from get_smiles_from_name_result [of cactus_demo "''unobtainium''" io_start] u
  have "fst (get_smiles_from_name cactus_demo ''unobtainium'' io_start) = Inr ''not found'' \<and>
        requests_sent (snd (get_smiles_from_name cactus_demo ''unobtainium'' io_start)) =
          [''https://cactus.nci.nih.gov/chemical/structure/unobtainium/smiles'']"
    by (simp add: io_start_def ROOT_URL_def)
  ultimately show ?thesis by simp
qed

end
